theory Spec2Isabelle
  imports Complex_Main
begin

section \<open>The Layer container of \<^verbatim>\<open>src/public/src/engine/object.js\<close>\<close>

text \<open>
  The embedding follows \<^verbatim>\<open>object.js\<close>: a \<^verbatim>\<open>Layer\<close> holds an array of references to
  \<^verbatim>\<open>Child\<close> objects, mutates the children it refers to (their \<^verbatim>\<open>rect\<close> and \<^verbatim>\<open>layer\<close>),
  and routes events to them.  Objects live in an explicit store (\<open>heap\<close>), so that the same
  object can be referred to twice.  JavaScript numbers are idealised as \<open>real\<close> (no rounding,
  no \<^verbatim>\<open>NaN\<close>).  A thrown \<^verbatim>\<open>TypeError\<close> is the value \<open>Inl TypeError\<close>; since JavaScript
  keeps every mutation made before the throw, each operation returns its outcome together
  with the state it leaves behind.
\<close>

subsection \<open>Geometry and event envelope\<close>

record Rect =
  rx :: real
  ry :: real
  rw :: real
  rh :: real

type_synonym Vec2 = "real \<times> real"

text \<open>
  Modelled from the spec: \<^verbatim>\<open>Rect.contains\<close> of \<^verbatim>\<open>shared/math\<close> is not under \<^verbatim>\<open>src/\<close>; the
  spec calls it the rectangle's "containment test against a point".  The borders are taken as
  inside.
\<close>
definition contains :: "Rect \<Rightarrow> Vec2 \<Rightarrow> bool" where
  "contains r p \<longleftrightarrow>
     rx r \<le> fst p \<and> fst p \<le> rx r + rw r \<and> ry r \<le> snd p \<and> snd p \<le> ry r + rh r"

text \<open>
  Modelled from the spec: \<^verbatim>\<open>event.data.clone().sub(this.rect)\<close> produces the "position
  translated into the Layer's local coordinate space (subtract the Layer's own origin)".
\<close>
definition sub :: "Vec2 \<Rightarrow> Rect \<Rightarrow> Vec2" where
  "sub p r = (fst p - rx r, snd p - ry r)"

datatype MessageType = MouseType nat | OtherType nat

record Message =
  mtype :: MessageType
  creator :: nat
  data :: Vec2
  finalCallback :: nat

text \<open>
  Modelled from the spec: \<^verbatim>\<open>Message.isMouseEvent\<close> of \<^verbatim>\<open>./message\<close> is not under \<^verbatim>\<open>src/\<close>; it is
  the envelope's "predicate for: is this a pointer/mouse event", decided by the type tag.
\<close>
definition isMouseEvent :: "Message \<Rightarrow> bool" where
  "isMouseEvent event = (case mtype event of MouseType _ \<Rightarrow> True | OtherType _ \<Rightarrow> False)"

subsection \<open>Children and the store\<close>

text \<open>What a child's \<^verbatim>\<open>onEvent\<close> hands back; only \<open>JTrue\<close> is \<^verbatim>\<open>=== true\<close>.\<close>

datatype jsval = JTrue | JFalse | JUndefined | JOther nat

text \<open>
  A child object.  Its own enumerable properties are \<open>rect\<close>, \<open>layer\<close> (the back-reference
  written by \<^verbatim>\<open>add\<close> and \<^verbatim>\<open>showPopup\<close>; absent before), \<open>disabled\<close> (absent, or a boolean) and
  whatever else a subclass stores (\<open>props\<close>).  \<open>onEvent\<close> and \<open>hasInit\<close> stand for the methods
  of its class: the value its \<^verbatim>\<open>onEvent\<close> returns for an event, and whether it has an
  \<^verbatim>\<open>init\<close> hook; \<open>initCalls\<close> counts the invocations of that hook.  What these two methods
  do besides (they belong to the application, not to \<^verbatim>\<open>object.js\<close>) is not modelled: a
  child's \<^verbatim>\<open>onEvent\<close> answers and leaves the Layer alone.
\<close>

record Child =
  rect :: Rect
  layer :: "nat option"
  disabled :: "bool option"
  props :: "(string \<times> nat) list"
  onEvent :: "Message \<Rightarrow> jsval"
  hasInit :: bool
  initCalls :: nat

type_synonym ref = nat

datatype error = TypeError

datatype Layout = HBoxLayout | VBoxLayout | BorderBoxLayout

text \<open>The options bag of \<^verbatim>\<open>add\<close>: the keys the code reads, and the names of any other keys.\<close>

record Opts =
  fill :: "(real \<times> real) option"
  useLayout :: "bool option"
  align :: "(real \<times> real) option"
  others :: "string list"

text \<open>
  The Layer object (\<open>lrect\<close> is its \<^verbatim>\<open>this.rect\<close>, \<open>self\<close> its identity) together with the
  store of the objects its references point to.
\<close>

record Layer =
  heap :: "ref \<Rightarrow> Child"
  self :: nat
  lrect :: Rect
  children :: "ref list"
  popup :: "ref option"
  spacing :: real
  layout :: "Layout option"
  eventForwarding :: bool

text \<open>The constructor: \<^verbatim>\<open>constructor(layout=null, maxSize=new Rect())\<close>.\<close>

definition new_Layer :: "(ref \<Rightarrow> Child) \<Rightarrow> nat \<Rightarrow> Layout option \<Rightarrow> Rect \<Rightarrow> Layer" where
  "new_Layer h this lay maxSize =
     \<lparr>heap = h, self = this, lrect = maxSize, children = [], popup = None,
      spacing = 5, layout = lay, eventForwarding = True\<rparr>"

definition truthy :: "bool option \<Rightarrow> bool" where
  "truthy v = (v = Some True)"

text \<open>
  Modelled from the spec: the accessors \<^verbatim>\<open>xy\<close> and \<^verbatim>\<open>wh\<close> of \<^verbatim>\<open>Rect\<close> (\<^verbatim>\<open>shared/math\<close>, not under
  \<^verbatim>\<open>src/\<close>) are the rectangle's position and size; \<^verbatim>\<open>rect.xy = [a, b]\<close> and
  \<^verbatim>\<open>rect.wh = [a, b]\<close> assign them, here on the object behind a reference.
\<close>

definition set_xy :: "ref \<Rightarrow> Vec2 \<Rightarrow> Layer \<Rightarrow> Layer" where
  "set_xy r p s =
     s\<lparr>heap := (heap s)(r := (heap s r)\<lparr>rect := (rect (heap s r))\<lparr>rx := fst p, ry := snd p\<rparr>\<rparr>)\<rparr>"

definition set_wh :: "ref \<Rightarrow> Vec2 \<Rightarrow> Layer \<Rightarrow> Layer" where
  "set_wh r p s =
     s\<lparr>heap := (heap s)(r := (heap s r)\<lparr>rect := (rect (heap s r))\<lparr>rw := fst p, rh := snd p\<rparr>\<rparr>)\<rparr>"

definition set_layer :: "ref \<Rightarrow> Layer \<Rightarrow> Layer" where
  "set_layer r s = s\<lparr>heap := (heap s)(r := (heap s r)\<lparr>layer := Some (self s)\<rparr>)\<rparr>"

subsection \<open>The lodash calls\<close>

text \<open>
  \<^verbatim>\<open>_.remove(array, child)\<close> is handed an object where lodash expects a predicate, and lodash
  turns an object into the predicate \<^verbatim>\<open>_.matches(child)\<close>: an element matches when it has every
  own property of \<open>child\<close> with an equal value (a partial deep comparison).  \<^verbatim>\<open>_.remove\<close> then
  takes every matching element out of the array, in place.  A back-reference matches only
  the same Layer.
\<close>

definition has_prop :: "'a option \<Rightarrow> 'a option \<Rightarrow> bool" where
  "has_prop src obj = (case src of None \<Rightarrow> True | Some v \<Rightarrow> obj = Some v)"

definition lodash_matches :: "Child \<Rightarrow> Child \<Rightarrow> bool" where
  "lodash_matches src obj \<longleftrightarrow>
     rect obj = rect src \<and> has_prop (layer src) (layer obj) \<and>
     has_prop (disabled src) (disabled obj) \<and>
     list_all (\<lambda>k. map_of (props obj) k = map_of (props src) k) (map fst (props src))"

definition lodash_remove :: "(ref \<Rightarrow> Child) \<Rightarrow> ref list \<Rightarrow> ref \<Rightarrow> ref list" where
  "lodash_remove h array child = filter (\<lambda>e. \<not> lodash_matches (h child) (h e)) array"

text \<open>\<^verbatim>\<open>_.last(array)\<close>: \<^verbatim>\<open>undefined\<close> for an empty array.\<close>

definition lodash_last :: "'a list \<Rightarrow> 'a option" where
  "lodash_last xs = (if xs = [] then None else Some (last xs))"

text \<open>\<^verbatim>\<open>_.omit(opts, ["fill", "useLayout"])\<close>; of \<^verbatim>\<open>undefined\<close> it is the empty object.\<close>

definition omit :: "Opts option \<Rightarrow> Opts" where
  "omit opts = (case opts of
       None \<Rightarrow> \<lparr>fill = None, useLayout = None, align = None, others = []\<rparr>
     | Some bag \<Rightarrow> bag\<lparr>fill := None, useLayout := None\<rparr>)"

definition isEmpty :: "Opts \<Rightarrow> bool" where
  "isEmpty bag \<longleftrightarrow>
     fill bag = None \<and> useLayout bag = None \<and> align bag = None \<and> others bag = []"

subsection \<open>Layout strategies\<close>

text \<open>
  Each strategy is called as a method of the Layer, with the child, the previous sibling
  (\<^verbatim>\<open>undefined\<close> is \<open>None\<close>) and the options (\<^verbatim>\<open>undefined\<close> is \<open>None\<close>).  Reading a property of
  \<^verbatim>\<open>undefined\<close> throws.  In the strip strategies \<^verbatim>\<open>prev.rect.clone().add(new Vec2(dx, dy)).xy\<close>
  is the position of \<open>prev\<close> moved by \<open>(dx, dy)\<close> (the spec's component-wise translate of
  \<^verbatim>\<open>shared/math\<close>).  The sums, products and differences of lines 220-230 are rounded doubles
  in the code and exact here; a statement about them carries over to the code only where
  it does not depend on the rounding.
\<close>

definition HBox :: "Layer \<Rightarrow> Child \<Rightarrow> Child option \<Rightarrow> error + Vec2" where
  "HBox this child prev = (case prev of
       None \<Rightarrow> Inl TypeError
     | Some p \<Rightarrow> Inr (rx (rect p) + (rw (rect p) + spacing this), ry (rect p) + 0))"

definition VBox :: "Layer \<Rightarrow> Child \<Rightarrow> Child option \<Rightarrow> error + Vec2" where
  "VBox this child prev = (case prev of
       None \<Rightarrow> Inl TypeError
     | Some p \<Rightarrow> Inr (rx (rect p) + 0, ry (rect p) + (rh (rect p) + spacing this)))"

definition BorderBox :: "Layer \<Rightarrow> Child \<Rightarrow> Child option \<Rightarrow> Opts option \<Rightarrow> error + Vec2" where
  "BorderBox this child prev opts = (case opts of
       None \<Rightarrow> Inl TypeError
     | Some bag \<Rightarrow> (case align bag of
         None \<Rightarrow> Inl TypeError
       | Some a \<Rightarrow> Inr
          (max 0 (min (rw (lrect this) * fst a - rw (rect child) / 2)
                      (rw (lrect this) - rw (rect child))),
           max 0 (min (rh (lrect this) * snd a - rh (rect child) / 2)
                      (rh (lrect this) - rh (rect child))))))"

definition call_layout ::
  "Layout \<Rightarrow> Layer \<Rightarrow> Child \<Rightarrow> Child option \<Rightarrow> Opts option \<Rightarrow> error + Vec2" where
  "call_layout l this child prev opts = (case l of
       HBoxLayout \<Rightarrow> HBox this child prev
     | VBoxLayout \<Rightarrow> VBox this child prev
     | BorderBoxLayout \<Rightarrow> BorderBox this child prev opts)"

subsection \<open>Layer operations\<close>

datatype ret = This | Ref ref

text \<open>
  The loop of \<^verbatim>\<open>_reloadLayout\<close>: \<^verbatim>\<open>_.each(this.children, (item, index) => ...)\<close>, at \<open>index\<close>
  with \<open>items\<close> still to visit.  The callback returns nothing, so \<^verbatim>\<open>_.each\<close> never stops
  early: the loop ends at the end of the array or by a throw.
\<close>

fun reload_each :: "Layout \<Rightarrow> ref list \<Rightarrow> nat \<Rightarrow> Layer \<Rightarrow> (error + unit) \<times> Layer" where
  "reload_each l [] index s = (Inr (), s)"
| "reload_each l (item # items) index s =
     (if index = 0 then reload_each l items (Suc index) (set_xy item (0, 0) s)
      else (case call_layout l s (heap s item) (Some (heap s (children s ! (index - 1)))) None of
              Inl e \<Rightarrow> (Inl e, s)
            | Inr xy \<Rightarrow> reload_each l items (Suc index) (set_xy item xy s)))"

definition reloadLayout :: "Layer \<Rightarrow> (error + ret) \<times> Layer" where
  "reloadLayout s0 =
     (let s = s0\<lparr>popup := None\<rparr> in
      case layout s of
        None \<Rightarrow> (Inr This, s)
      | Some l \<Rightarrow> (case reload_each l (children s) 0 s of
                     (Inl e, s') \<Rightarrow> (Inl e, s')
                   | (Inr _, s') \<Rightarrow> (Inr This, s')))"

definition showPopup :: "ref option \<Rightarrow> Layer \<Rightarrow> ret \<times> Layer" where
  "showPopup p s0 =
     (let s = s0\<lparr>popup := p\<rparr> in
      case p of
        None \<Rightarrow> (This, s)
      | Some r \<Rightarrow>
          (let s1 = set_layer r s in
           (This, set_xy r (rw (lrect s1) / 2 - rw (rect (heap s1 r)) / 2,
                            rh (lrect s1) / 2 - rh (rect (heap s1 r)) / 2) s1)))"

text \<open>
  \<^verbatim>\<open>remove\<close>: the array \<^verbatim>\<open>_.remove\<close> returns is truthy even when empty, so \<^verbatim>\<open>_reloadLayout\<close>
  always runs and its result is returned.
\<close>

definition remove :: "ref \<Rightarrow> Layer \<Rightarrow> (error + ret) \<times> Layer" where
  "remove child s = reloadLayout (s\<lparr>children := lodash_remove (heap s) (children s) child\<rparr>)"

definition clear :: "Layer \<Rightarrow> (error + ret) \<times> Layer" where
  "clear s = (case reloadLayout (s\<lparr>children := []\<rparr>) of
                (Inl e, s') \<Rightarrow> (Inl e, s')
              | (Inr _, s') \<Rightarrow> (Inr This, s'))"

text \<open>\<^verbatim>\<open>(a || b)\<close> on numbers: \<open>b\<close> when \<open>a\<close> is zero.\<close>

definition or_else :: "real \<Rightarrow> real \<Rightarrow> real" where
  "or_else a b = (if a \<noteq> 0 then a else b)"

definition apply_fill :: "ref \<Rightarrow> Opts option \<Rightarrow> Layer \<Rightarrow> Layer" where
  "apply_fill child opts s = (case opts of
       None \<Rightarrow> s
     | Some bag \<Rightarrow> (case fill bag of
         None \<Rightarrow> s
       | Some f \<Rightarrow> set_wh child
           (or_else (rw (lrect s) * fst f) (rw (rect (heap s child))) - spacing s * 2,
            or_else (rh (lrect s) * snd f) (rh (rect (heap s child))) - spacing s * 2) s))"

definition uses_layout :: "Opts option \<Rightarrow> bool" where
  "uses_layout opts = (case opts of None \<Rightarrow> True | Some bag \<Rightarrow> useLayout bag \<noteq> Some False)"

definition place :: "Layout \<Rightarrow> ref \<Rightarrow> Opts option \<Rightarrow> Layer \<Rightarrow> (error + unit) \<times> Layer" where
  "place l child opts0 s =
     (if uses_layout opts0 then
        (let opts = omit opts0 in
         if children s \<noteq> [] \<or> \<not> isEmpty opts then
           (case call_layout l s (heap s child)
                   (map_option (heap s) (lodash_last (children s))) (Some opts) of
              Inl e \<Rightarrow> (Inl e, s)
            | Inr xy \<Rightarrow> (Inr (), set_xy child xy s))
         else (Inr (), set_xy child (spacing s, spacing s) s))
      else (Inr (), s))"

definition run_init :: "ref \<Rightarrow> Layer \<Rightarrow> Layer" where
  "run_init child s =
     (if hasInit (heap s child)
      then s\<lparr>heap := (heap s)(child := (heap s child)\<lparr>initCalls := Suc (initCalls (heap s child))\<rparr>)\<rparr>
      else s)"

definition add :: "ref \<Rightarrow> Opts option \<Rightarrow> Layer \<Rightarrow> (error + ret) \<times> Layer" where
  "add child opts s0 =
     (let s1 = set_layer child s0 in
      case (case layout s1 of
              None \<Rightarrow> (Inr (), s1)
            | Some l \<Rightarrow> place l child opts (apply_fill child opts s1)) of
        (Inl e, s2) \<Rightarrow> (Inl e, s2)
      | (Inr _, s2) \<Rightarrow>
          (let s3 = run_init child s2 in
           (Inr (Ref child), s3\<lparr>children := children s3 @ [child]\<rparr>)))"

text \<open>
  The forwarding loop of \<^verbatim>\<open>onEvent\<close>: \<^verbatim>\<open>_.each(this.children, child => ...)\<close> over the
  \<open>items\<close> still to visit.  It returns the calls of \<^verbatim>\<open>onEvent\<close> it made, in order, and the
  state.  A child answering \<^verbatim>\<open>true\<close> is taken out of \<^verbatim>\<open>this.children\<close> by \<^verbatim>\<open>_.remove\<close>,
  put back in front by \<^verbatim>\<open>unshift\<close>, and the callback's \<^verbatim>\<open>return false\<close> ends the loop.
\<close>

type_synonym trace = "(ref \<times> Message) list"

fun forward_each :: "Message \<Rightarrow> ref list \<Rightarrow> Layer \<Rightarrow> trace \<times> Layer" where
  "forward_each event [] s = ([], s)"
| "forward_each event (child # items) s =
     (if truthy (disabled (heap s child)) then forward_each event items s
      else if onEvent (heap s child) event = JTrue then
        ([(child, event)],
         s\<lparr>children := child # lodash_remove (heap s) (children s) child\<rparr>)
      else (case forward_each event items s of
              (calls, s') \<Rightarrow> ((child, event) # calls, s')))"

text \<open>
  \<^verbatim>\<open>Layer.onEvent\<close>: the value it returns, the calls of \<^verbatim>\<open>onEvent\<close> it made on other
  objects, and the state.  Only the hit test has a \<^verbatim>\<open>return\<close> statement of the method
  itself; every other path runs off the end of the method.  \<open>misses\<close> is the condition of
  that \<^verbatim>\<open>return false\<close> (a mouse event, a rect of nonzero area, a position outside it), and
  \<open>rewrap\<close> the event the rest of the method works with: for a mouse event the
  \<^verbatim>\<open>new Message(...)\<close> with the position translated, otherwise the event itself.
\<close>

definition rewrap :: "Message \<Rightarrow> Layer \<Rightarrow> Message" where
  "rewrap event s =
     (if isMouseEvent event
      then \<lparr>mtype = mtype event, creator = creator event,
            data = sub (data event) (lrect s), finalCallback = finalCallback event\<rparr>
      else event)"

definition misses :: "Message \<Rightarrow> Layer \<Rightarrow> bool" where
  "misses event s \<longleftrightarrow>
     isMouseEvent event \<and> rw (lrect s) * rh (lrect s) \<noteq> 0 \<and> \<not> contains (lrect s) (data event)"

definition Layer_onEvent :: "Message \<Rightarrow> Layer \<Rightarrow> jsval \<times> trace \<times> Layer" where
  "Layer_onEvent event0 s =
     (if misses event0 s then (JFalse, [], s)
      else
        (let event = rewrap event0 s in
         case popup s of
           Some p \<Rightarrow> (JUndefined, [(p, event)], s)
         | None \<Rightarrow>
             if eventForwarding s then
               (case forward_each event (children s) s of
                  (calls, s') \<Rightarrow> (JUndefined, calls, s'))
             else (JUndefined, [], s)))"

subsection \<open>Vocabulary of the properties\<close>

text \<open>A child takes part in dispatch when its \<^verbatim>\<open>disabled\<close> property is not truthy.\<close>

definition enabled :: "Layer \<Rightarrow> ref \<Rightarrow> bool" where
  "enabled s c \<longleftrightarrow> \<not> truthy (disabled (heap s c))"

text \<open>A child captures an event when it takes part and its \<^verbatim>\<open>onEvent\<close> answers \<^verbatim>\<open>true\<close>.\<close>

definition captures :: "Layer \<Rightarrow> Message \<Rightarrow> ref \<Rightarrow> bool" where
  "captures s event c \<longleftrightarrow> enabled s c \<and> onEvent (heap s c) event = JTrue"

text \<open>The state after the focus promotion of \<open>c\<close>.\<close>

definition promote :: "ref \<Rightarrow> Layer \<Rightarrow> Layer" where
  "promote c s = s\<lparr>children := c # lodash_remove (heap s) (children s) c\<rparr>"

subsection \<open>Concrete objects for the examples\<close>

definition new_Rect :: "real \<Rightarrow> real \<Rightarrow> real \<Rightarrow> real \<Rightarrow> Rect" where
  "new_Rect a b c d = \<lparr>rx = a, ry = b, rw = c, rh = d\<rparr>"

text \<open>\<^verbatim>\<open>new Child(rect)\<close> of a class whose \<^verbatim>\<open>onEvent\<close> answers by \<open>answer\<close>.\<close>

definition new_Child :: "Rect \<Rightarrow> (Message \<Rightarrow> jsval) \<Rightarrow> Child" where
  "new_Child r answer =
     \<lparr>rect = r, layer = None, disabled = None, props = [], onEvent = answer,
      hasInit = False, initCalls = 0\<rparr>"

definition pointer_at :: "real \<Rightarrow> real \<Rightarrow> Message" where
  "pointer_at a b = \<lparr>mtype = MouseType 0, creator = 0, data = (a, b), finalCallback = 0\<rparr>"

definition key_press :: Message where
  "key_press = \<lparr>mtype = OtherType 0, creator = 0, data = (0, 0), finalCallback = 0\<rparr>"

text \<open>A store in which every reference is a fresh 10 by 10 child that captures nothing.\<close>

definition boxes :: "ref \<Rightarrow> Child" where
  "boxes = (\<lambda>_. new_Child (new_Rect 0 0 10 10) (\<lambda>_. JUndefined))"


text \<open>
  A store of children laid out in a row (child \<open>r\<close> at x = 15 r), of which child 2
  answers \<^verbatim>\<open>true\<close> and child 4 is disabled (and would answer \<^verbatim>\<open>true\<close> too).
\<close>

definition strip :: "ref \<Rightarrow> Child" where
  "strip = (\<lambda>r. new_Child (new_Rect (15 * real r) 5 10 10) (\<lambda>_. JUndefined))
     (2 := new_Child (new_Rect 30 5 10 10) (\<lambda>_. JTrue),
      4 := (new_Child (new_Rect 60 5 10 10) (\<lambda>_. JTrue))\<lparr>disabled := Some True\<rparr>)"

definition focus_layer :: Layer where
  "focus_layer = (new_Layer strip 0 None (new_Rect 0 0 0 0))\<lparr>children := [1, 4, 2, 3]\<rparr>"

text \<open>A 50 by 50 Layer with three children and the popup 9.\<close>

definition popup_layer :: Layer where
  "popup_layer =
     (new_Layer strip 0 None (new_Rect 0 0 50 50))\<lparr>children := [1, 2, 3], popup := Some 9\<rparr>"

subsection \<open>Vocabulary and objects for the layout properties\<close>

text \<open>The position of every child of the sequence, in sequence order.\<close>

definition positions :: "Layer \<Rightarrow> (ref \<times> Vec2) list" where
  "positions s = map (\<lambda>r. (r, rx (rect (heap s r)), ry (rect (heap s r)))) (children s)"

text \<open>
  The \<^verbatim>\<open>clamp(v, lo, hi)\<close> of the spec's bounded-alignment formula, read as
  \<^verbatim>\<open>Math.max(lo, Math.min(v, hi))\<close>, the shape of lines 229-230.  Whenever \<open>lo \<le> hi\<close> every
  reading of "limit \<open>v\<close> to the interval from \<open>lo\<close> to \<open>hi\<close>" gives the same value.
\<close>

definition clamp :: "real \<Rightarrow> real \<Rightarrow> real \<Rightarrow> real" where
  "clamp v lo hi = max lo (min v hi)"

text \<open>
  On one axis, a position \<open>p\<close> keeps a child of size \<open>childSize\<close> within a parent of size
  \<open>parentSize\<close>: it is not negative and not beyond \<open>parentSize - childSize\<close>, the limit the
  code clamps to.  The comparison is with that difference as such, so it does not depend
  on how the difference is rounded.
\<close>

definition in_bounds :: "real \<Rightarrow> real \<Rightarrow> real \<Rightarrow> bool" where
  "in_bounds p childSize parentSize \<longleftrightarrow> 0 \<le> p \<and> p \<le> parentSize - childSize"

text \<open>
  A child placed at \<open>p\<close> (in the parent's local coordinates) lies fully inside the parent's
  bounds.
\<close>

definition inside :: "Layer \<Rightarrow> Child \<Rightarrow> Vec2 \<Rightarrow> bool" where
  "inside this child p \<longleftrightarrow>
     0 \<le> fst p \<and> fst p + rw (rect child) \<le> rw (lrect this) \<and>
     0 \<le> snd p \<and> snd p + rh (rect child) \<le> rh (lrect this)"

text \<open>The options bag \<^verbatim>\<open>{align: [ax, ay]}\<close>.\<close>

definition aligned :: "real \<Rightarrow> real \<Rightarrow> Opts" where
  "aligned ax ay = \<lparr>fill = None, useLayout = None, align = Some (ax, ay), others = []\<rparr>"

text \<open>An empty horizontal-strip Layer with the default spacing 5, over 10 by 10 children.\<close>

definition hbox_layer :: Layer where
  "hbox_layer = new_Layer boxes 0 (Some HBoxLayout) (new_Rect 0 0 0 0)"

text \<open>\<^verbatim>\<open>add(1); add(2); remove(1); add(3)\<close>, and the fresh Layer built by \<^verbatim>\<open>add(2); add(3)\<close>.\<close>

definition readded :: Layer where
  "readded = snd (add 3 None (snd (remove 1 (snd (add 2 None (snd (add 1 None hbox_layer)))))))"

definition fresh :: Layer where
  "fresh = snd (add 3 None (snd (add 2 None hbox_layer)))"

text \<open>An empty bounded-alignment Layer of size \<open>a\<close> by \<open>a\<close>, and a 20 by 20 child.\<close>

definition border_parent :: "real \<Rightarrow> Layer" where
  "border_parent a = new_Layer boxes 0 (Some BorderBoxLayout) (new_Rect 0 0 a a)"

definition big_child :: Child where
  "big_child = new_Child (new_Rect 0 0 20 20) (\<lambda>_. JUndefined)"

text \<open>
  A 100 by 100 bounded-alignment Layer after \<^verbatim>\<open>add(1, {align: [0, 0]})\<close> and
  \<^verbatim>\<open>add(2, {align: [1, 1]})\<close>.
\<close>

definition border_layer :: Layer where
  "border_layer =
     snd (add 2 (Some (aligned 1 1))
       (snd (add 1 (Some (aligned 0 0))
          (new_Layer strip 0 (Some BorderBoxLayout) (new_Rect 0 0 100 100)))))"

text \<open>
  A Layer without layout after \<^verbatim>\<open>add(1)\<close>; child 2, never added, has the same rect as
  child 1.
\<close>

definition twin_layer :: Layer where
  "twin_layer = snd (add 1 None (new_Layer boxes 0 None (new_Rect 0 0 0 0)))"

section \<open>Properties\<close>

subsection \<open>Facts about the lodash calls and the two loops\<close>




lemma lodash_remove_absent:
  "\<forall>e\<in>set array. \<not> lodash_matches (h child) (h e) \<Longrightarrow> lodash_remove h array child = array"
  by (simp add: lodash_remove_def)

lemma children_set_xy: "children (set_xy r p s) = children s"
  and popup_set_xy: "popup (set_xy r p s) = popup s"
  and layout_set_xy: "layout (set_xy r p s) = layout s"
  by (simp_all add: set_xy_def)

lemma children_set_wh: "children (set_wh r p s) = children s"
  and popup_set_wh: "popup (set_wh r p s) = popup s"
  by (simp_all add: set_wh_def)

lemma children_set_layer: "children (set_layer r s) = children s"
  and popup_set_layer: "popup (set_layer r s) = popup s"
  by (simp_all add: set_layer_def)

lemma reload_each_frame:
  "children (snd (reload_each l items index s)) = children s \<and>
   popup (snd (reload_each l items index s)) = popup s"
proof (induction items arbitrary: index s)
  case Nil
  show ?case by simp
next
  case (Cons item items)
  show ?case
    by (simp add: Cons.IH children_set_xy popup_set_xy split: sum.splits)
qed

lemma linear_layout_defined:
  "l \<noteq> BorderBoxLayout \<Longrightarrow> \<exists>xy. call_layout l s c (Some p) opts = Inr xy"
  by (cases l) (simp_all add: call_layout_def HBox_def VBox_def)

lemma reload_each_linear:
  "l \<noteq> BorderBoxLayout \<Longrightarrow> fst (reload_each l items index s) = Inr ()"
proof (induction items arbitrary: index s)
  case Nil
  show ?case by simp
next
  case (Cons item items)
  from Cons.prems obtain xy where
    "call_layout l s (heap s item) (Some (heap s (children s ! (index - 1)))) None = Inr xy"
    using linear_layout_defined by blast
  with Cons show ?case by simp
qed

lemma reloadLayout_frame:
  "children (snd (reloadLayout s)) = children s \<and> popup (snd (reloadLayout s)) = None"
proof (cases "layout s")
  case None
  then show ?thesis by (simp add: reloadLayout_def)
next
  case (Some l)
  obtain r s' where r: "reload_each l (children s) 0 (s\<lparr>popup := None\<rparr>) = (r, s')"
    by (cases "reload_each l (children s) 0 (s\<lparr>popup := None\<rparr>)")
  have "children s' = children s \<and> popup s' = None"
    using reload_each_frame [of l "children s" 0 "s\<lparr>popup := None\<rparr>"] r by simp
  with Some r show ?thesis
    by (cases r) (simp_all add: reloadLayout_def)
qed

lemma reloadLayout_returns:
  assumes "layout s \<noteq> Some BorderBoxLayout"
  shows "fst (reloadLayout s) = Inr This"
proof (cases "layout s")
  case None
  then show ?thesis by (simp add: reloadLayout_def)
next
  case (Some l)
  with assms have l: "l \<noteq> BorderBoxLayout" by simp
  obtain r s' where r: "reload_each l (children s) 0 (s\<lparr>popup := None\<rparr>) = (r, s')"
    by (cases "reload_each l (children s) 0 (s\<lparr>popup := None\<rparr>)")
  have "r = Inr ()"
    using reload_each_linear [OF l, of "children s" 0 "s\<lparr>popup := None\<rparr>"] r by simp
  with Some r show ?thesis by (simp add: reloadLayout_def)
qed

lemma forward_each_capture:
  assumes "i < length items" "captures s event (items ! i)"
    and "\<forall>j<i. \<not> captures s event (items ! j)"
  shows "forward_each event items s =
           (map (\<lambda>c. (c, event)) (filter (enabled s) (take (Suc i) items)), promote (items ! i) s)"
  using assms
proof (induction items arbitrary: i)
  case Nil
  then show ?case by simp
next
  case (Cons c items)
  show ?case
  proof (cases i)
    case 0
    with Cons.prems show ?thesis by (simp add: captures_def enabled_def promote_def)
  next
    case (Suc k)
    with Cons.prems have k: "k < length items" "captures s event (items ! k)" by simp_all
    have earlier: "\<forall>j<k. \<not> captures s event (items ! j)"
    proof (intro allI impI)
      fix j assume "j < k"
      then have "Suc j < i" using Suc by simp
      with Cons.prems(3) have "\<not> captures s event ((c # items) ! Suc j)" by blast
      then show "\<not> captures s event (items ! j)" by simp
    qed
    have head: "\<not> captures s event c"
      using Cons.prems(3) Suc by (metis nth_Cons_0 zero_less_Suc)
    from Cons.IH [OF k earlier] head Suc show ?thesis
      by (auto simp: captures_def enabled_def)
  qed
qed

lemma forward_each_no_capture:
  "\<forall>c\<in>set items. \<not> captures s event c \<Longrightarrow>
   forward_each event items s = (map (\<lambda>c. (c, event)) (filter (enabled s) items), s)"
  by (induction items) (auto simp: captures_def enabled_def)


subsection \<open>Event dispatch\<close>

text \<open>
  Claim C1, as the code has it.  While a popup is set, an event that passes the hit test
  is handed, rewrapped, to the popup's \<^verbatim>\<open>onEvent\<close> and to nothing else; a pointer event that
  fails the hit test is handed to nobody.  In both cases the children sequence is left as
  it was, and \<^verbatim>\<open>eventForwarding\<close> makes no difference.
\<close>

theorem popup_receives_event_alone:
  assumes "popup s = Some p"
  shows "fst (snd (Layer_onEvent event s)) = (if misses event s then [] else [(p, rewrap event s)]) \<and>
         snd (snd (Layer_onEvent event s)) = s \<and>
         fst (snd (Layer_onEvent event (s\<lparr>eventForwarding := b\<rparr>))) = fst (snd (Layer_onEvent event s))"
  using assms by (simp add: Layer_onEvent_def misses_def rewrap_def Let_def)

theorem popup_receives_event_alone_witness:
  "popup popup_layer = Some 9 \<and> \<not> misses (pointer_at 10 10) popup_layer \<and>
   fst (snd (Layer_onEvent (pointer_at 10 10) popup_layer)) = [(9, pointer_at 10 10)] \<and>
   fst (snd (Layer_onEvent key_press popup_layer)) = [(9, key_press)] \<and>
   fst (snd (Layer_onEvent key_press (popup_layer\<lparr>eventForwarding := False\<rparr>))) = [(9, key_press)]"
proof -
  have p: "popup popup_layer = Some 9"
    by (simp add: popup_layer_def new_Layer_def)
  have hit: "\<not> misses (pointer_at 10 10) popup_layer" "\<not> misses key_press popup_layer"
    by (simp_all add: misses_def popup_layer_def new_Layer_def pointer_at_def key_press_def
        isMouseEvent_def contains_def new_Rect_def)
  have same: "rewrap (pointer_at 10 10) popup_layer = pointer_at 10 10"
    "rewrap key_press popup_layer = key_press"
    by (simp_all add: rewrap_def popup_layer_def new_Layer_def pointer_at_def key_press_def
        isMouseEvent_def sub_def new_Rect_def)
  show ?thesis
    using p hit same popup_receives_event_alone [OF p, of "pointer_at 10 10" True]
      popup_receives_event_alone [OF p, of key_press False]
    by simp
qed

text \<open>
  Claim C1 as stated fails: a pointer event at (60, 60) on a 50 by 50 Layer with a popup
  is returned as not captured before the popup is looked at.
\<close>

theorem popup_skipped_outside_rect:
  "popup popup_layer = Some 9 \<and> isMouseEvent (pointer_at 60 60) \<and>
   Layer_onEvent (pointer_at 60 60) popup_layer = (JFalse, [], popup_layer)"
  by (simp add: Layer_onEvent_def misses_def popup_layer_def new_Layer_def pointer_at_def
      isMouseEvent_def contains_def new_Rect_def)

text \<open>
  Claim C2.  With forwarding on, no popup and an event that passes the hit test, the
  children are visited in sequence order and the disabled ones are skipped.  When the child
  at index \<open>i\<close> is the one that answers \<^verbatim>\<open>true\<close> (no enabled child before it did), the calls
  made are exactly those to the enabled children among the first \<open>i + 1\<close>, so nothing after
  index \<open>i\<close> is called, and the child is at index 0 afterwards.  When no enabled child
  answers \<^verbatim>\<open>true\<close>, every enabled child is called and the Layer is left as it was.
\<close>

theorem forwarding_stops_at_first_capture:
  assumes "eventForwarding s" "popup s = None" "\<not> misses event s"
  shows "(\<forall>i<length (children s).
            captures s (rewrap event s) (children s ! i) \<and>
            (\<forall>j<i. \<not> captures s (rewrap event s) (children s ! j)) \<longrightarrow>
            Layer_onEvent event s =
              (JUndefined,
               map (\<lambda>c. (c, rewrap event s)) (filter (enabled s) (take (Suc i) (children s))),
               promote (children s ! i) s) \<and>
            children (promote (children s ! i) s) ! 0 = children s ! i) \<and>
         ((\<forall>c\<in>set (children s). \<not> captures s (rewrap event s) c) \<longrightarrow>
            Layer_onEvent event s =
              (JUndefined, map (\<lambda>c. (c, rewrap event s)) (filter (enabled s) (children s)), s))"
proof (intro conjI allI impI)
  fix i
  assume i: "i < length (children s)"
    and cap: "captures s (rewrap event s) (children s ! i) \<and>
      (\<forall>j<i. \<not> captures s (rewrap event s) (children s ! j))"
  from cap have c1: "captures s (rewrap event s) (children s ! i)"
    and c2: "\<forall>j<i. \<not> captures s (rewrap event s) (children s ! j)" by simp_all
  show "Layer_onEvent event s =
      (JUndefined,
       map (\<lambda>c. (c, rewrap event s)) (filter (enabled s) (take (Suc i) (children s))),
       promote (children s ! i) s)"
    using assms forward_each_capture [OF i c1 c2]
    by (simp add: Layer_onEvent_def Let_def)
  show "children (promote (children s ! i) s) ! 0 = children s ! i"
    by (simp add: promote_def)
next
  assume "\<forall>c\<in>set (children s). \<not> captures s (rewrap event s) c"
  then show "Layer_onEvent event s =
      (JUndefined, map (\<lambda>c. (c, rewrap event s)) (filter (enabled s) (children s)), s)"
    using assms forward_each_no_capture [of "children s" s "rewrap event s"]
    by (simp add: Layer_onEvent_def Let_def)
qed

lemmas focus_defs = focus_layer_def strip_def new_Layer_def new_Child_def new_Rect_def
  key_press_def

theorem forwarding_stops_at_first_capture_witness:
  "eventForwarding focus_layer \<and> popup focus_layer = None \<and> \<not> misses key_press focus_layer \<and>
   children focus_layer = [1, 4, 2, 3] \<and>
   fst (snd (Layer_onEvent key_press focus_layer)) = [(1, key_press), (2, key_press)] \<and>
   children (snd (snd (Layer_onEvent key_press focus_layer))) = [2, 1, 4, 3] \<and>
   Layer_onEvent key_press (focus_layer\<lparr>children := [1, 4, 3]\<rparr>) =
     (JUndefined, [(1, key_press), (3, key_press)], focus_layer\<lparr>children := [1, 4, 3]\<rparr>)"
proof -
  let ?quiet = "focus_layer\<lparr>children := [1, 4, 3]\<rparr>"
  have q: "eventForwarding ?quiet" "popup ?quiet = None" "\<not> misses key_press ?quiet"
    by (simp_all add: focus_defs misses_def isMouseEvent_def)
  have qe: "rewrap key_press ?quiet = key_press"
    by (simp add: rewrap_def isMouseEvent_def key_press_def)
  have qc: "\<forall>c\<in>set (children ?quiet). \<not> captures ?quiet key_press c"
    "filter (enabled ?quiet) (children ?quiet) = [1, 3]"
    by (simp_all add: captures_def enabled_def truthy_def focus_defs)
  have quiet: "Layer_onEvent key_press ?quiet =
      (JUndefined, [(1, key_press), (3, key_press)], ?quiet)"
    using forwarding_stops_at_first_capture [OF q] qc qe by simp
  have h: "eventForwarding focus_layer" "popup focus_layer = None"
    "\<not> misses key_press focus_layer"
    by (simp_all add: focus_defs misses_def isMouseEvent_def)
  have cs: "children focus_layer = [1, 4, 2, 3]"
    by (simp add: focus_defs)
  have e: "rewrap key_press focus_layer = key_press"
    by (simp add: rewrap_def isMouseEvent_def key_press_def)
  have cap: "captures focus_layer key_press 2" "\<not> captures focus_layer key_press 1"
    "\<not> captures focus_layer key_press 4" "enabled focus_layer 1" "\<not> enabled focus_layer 4"
    "enabled focus_layer 2"
    by (simp_all add: captures_def enabled_def truthy_def focus_defs)
  have earlier: "\<forall>j<2. \<not> captures focus_layer key_press (children focus_layer ! j)"
    using cap cs by (simp add: less_Suc_eq numeral_2_eq_2)
  have at2: "children focus_layer ! 2 = 2" "(2::nat) < length (children focus_layer)"
    "filter (enabled focus_layer) (take (Suc 2) (children focus_layer)) = [1, 2]"
    using cap cs by (simp_all add: numeral_2_eq_2)
  from forwarding_stops_at_first_capture [OF h]
  have "\<forall>i<length (children focus_layer).
      captures focus_layer (rewrap key_press focus_layer) (children focus_layer ! i) \<and>
      (\<forall>j<i. \<not> captures focus_layer (rewrap key_press focus_layer) (children focus_layer ! j)) \<longrightarrow>
      Layer_onEvent key_press focus_layer =
        (JUndefined,
         map (\<lambda>c. (c, rewrap key_press focus_layer))
           (filter (enabled focus_layer) (take (Suc i) (children focus_layer))),
         promote (children focus_layer ! i) focus_layer) \<and>
      children (promote (children focus_layer ! i) focus_layer) ! 0 = children focus_layer ! i"
    by (rule conjunct1)
  then have "Layer_onEvent key_press focus_layer =
        (JUndefined,
         map (\<lambda>c. (c, rewrap key_press focus_layer))
           (filter (enabled focus_layer) (take (Suc 2) (children focus_layer))),
         promote (children focus_layer ! 2) focus_layer)"
    using at2 cap(1) earlier e by simp
  then have "Layer_onEvent key_press focus_layer =
      (JUndefined, [(1, key_press), (2, key_press)], promote 2 focus_layer)"
    using at2 e by simp
  moreover have "children (promote 2 focus_layer) = [2, 1, 4, 3]"
    by (simp add: promote_def lodash_remove_def lodash_matches_def has_prop_def focus_defs)
  ultimately show ?thesis using h cs quiet by simp
qed

subsection \<open>Frame facts of \<^verbatim>\<open>add\<close>\<close>

lemma apply_fill_frame:
  "children (apply_fill child opts s) = children s \<and> popup (apply_fill child opts s) = popup s \<and>
   layout (apply_fill child opts s) = layout s"
  by (simp add: apply_fill_def set_wh_def split: option.splits)

lemma place_frame:
  "children (snd (place l child opts s)) = children s \<and>
   popup (snd (place l child opts s)) = popup s"
  by (simp add: place_def Let_def children_set_xy popup_set_xy split: sum.splits)

lemma run_init_frame:
  "children (run_init child s) = children s \<and> popup (run_init child s) = popup s"
  by (simp add: run_init_def)

lemma add_frame:
  "popup (snd (add child opts s)) = popup s \<and>
   children (snd (add child opts s)) =
     (case fst (add child opts s) of Inl e \<Rightarrow> children s | Inr r \<Rightarrow> children s @ [child])"
proof (cases "layout s")
  case None
  then show ?thesis
    by (simp add: add_def Let_def set_layer_def run_init_frame)
next
  case (Some l)
  let ?s1 = "apply_fill child opts (set_layer child s)"
  obtain r s2 where r: "place l child opts ?s1 = (r, s2)"
    by (cases "place l child opts ?s1")
  have "children s2 = children s \<and> popup s2 = popup s"
    using place_frame [of l child opts ?s1] r
    by (simp add: apply_fill_frame children_set_layer popup_set_layer)
  with Some r show ?thesis
    by (cases r) (simp_all add: add_def Let_def set_layer_def run_init_frame)
qed

lemmas popup_defs = popup_layer_def strip_def new_Layer_def new_Child_def new_Rect_def

subsection \<open>The hit test and the value returned\<close>

text \<open>
  Claim C5.  A pointer event whose position lies outside a Layer's rect of nonzero area
  is answered with \<^verbatim>\<open>false\<close>; no \<^verbatim>\<open>onEvent\<close> is called, of the popup or of a child, and
  the Layer is left as it was.
\<close>

theorem pointer_outside_rect_not_captured:
  assumes "isMouseEvent event" "rw (lrect s) * rh (lrect s) \<noteq> 0"
    and "\<not> contains (lrect s) (data event)"
  shows "Layer_onEvent event s = (JFalse, [], s)"
  using assms by (simp add: Layer_onEvent_def misses_def)

theorem pointer_outside_rect_not_captured_witness:
  "isMouseEvent (pointer_at 60 60) \<and> rw (lrect (popup_layer\<lparr>popup := None\<rparr>)) = 50 \<and>
   rh (lrect (popup_layer\<lparr>popup := None\<rparr>)) = 50 \<and>
   \<not> contains (lrect (popup_layer\<lparr>popup := None\<rparr>)) (data (pointer_at 60 60)) \<and>
   Layer_onEvent (pointer_at 60 60) (popup_layer\<lparr>popup := None\<rparr>) =
     (JFalse, [], popup_layer\<lparr>popup := None\<rparr>)"
proof -
  let ?s = "popup_layer\<lparr>popup := None\<rparr>"
  have m: "isMouseEvent (pointer_at 60 60)"
    by (simp add: isMouseEvent_def pointer_at_def)
  have r: "rw (lrect ?s) = 50" "rh (lrect ?s) = 50"
    by (simp_all add: popup_defs)
  have area: "rw (lrect ?s) * rh (lrect ?s) \<noteq> 0"
    using r by simp
  have out: "\<not> contains (lrect ?s) (data (pointer_at 60 60))"
    by (simp add: contains_def pointer_at_def popup_defs)
  show ?thesis
    using m r out pointer_outside_rect_not_captured [OF m area out] by simp
qed

text \<open>
  The value of \<^verbatim>\<open>Layer.onEvent\<close> is \<^verbatim>\<open>false\<close> when the hit test fails and \<^verbatim>\<open>undefined\<close> on
  every other path: the method never answers \<^verbatim>\<open>true\<close>.
\<close>

lemma Layer_onEvent_value:
  "fst (Layer_onEvent event s) = (if misses event s then JFalse else JUndefined)"
  by (simp add: Layer_onEvent_def Let_def split: option.splits prod.splits)

text \<open>
  Claim C4 does not hold of the code.  In \<open>focus_layer\<close> child 2 captures the key press
  and is promoted, yet \<^verbatim>\<open>Layer.onEvent\<close> returns \<^verbatim>\<open>undefined\<close>, not \<^verbatim>\<open>true\<close>.
\<close>

theorem capture_reported_as_undefined:
  "captures focus_layer key_press 2 \<and>
   Layer_onEvent key_press focus_layer =
     (JUndefined, [(1, key_press), (2, key_press)], focus_layer\<lparr>children := [2, 1, 4, 3]\<rparr>)"
  by (simp add: Layer_onEvent_def Let_def misses_def rewrap_def isMouseEvent_def captures_def
      enabled_def truthy_def lodash_remove_def lodash_matches_def has_prop_def
      focus_layer_def strip_def new_Layer_def new_Child_def new_Rect_def key_press_def)

subsection \<open>The popup slot under structural mutation\<close>

text \<open>
  Claim C3, as the code has it.  \<^verbatim>\<open>remove\<close> and \<^verbatim>\<open>clear\<close> leave the popup slot null
  (they go through \<^verbatim>\<open>_reloadLayout\<close>, which clears it first); \<^verbatim>\<open>clear\<close> always returns, and
  \<^verbatim>\<open>remove\<close> returns whenever the layout is not the bounded-alignment one.  \<^verbatim>\<open>add\<close> never
  touches the popup slot.
\<close>

theorem remove_and_clear_discard_popup:
  "popup (snd (remove child s)) = None \<and> popup (snd (clear s)) = None \<and>
   fst (clear s) = Inr This \<and>
   (layout s \<noteq> Some BorderBoxLayout \<longrightarrow> fst (remove child s) = Inr This) \<and>
   popup (snd (add child opts s)) = popup s"
proof (intro conjI impI)
  show "popup (snd (remove child s)) = None"
    by (simp add: remove_def reloadLayout_frame)
  have c: "clear s = (Inr This, s\<lparr>children := [], popup := None\<rparr>)"
    by (simp add: clear_def reloadLayout_def Let_def split: option.splits)
  show "popup (snd (clear s)) = None" "fst (clear s) = Inr This"
    by (simp_all add: c)
  show "popup (snd (add child opts s)) = popup s"
    by (simp add: add_frame)
next
  assume "layout s \<noteq> Some BorderBoxLayout"
  then show "fst (remove child s) = Inr This"
    by (simp add: remove_def reloadLayout_returns)
qed

theorem remove_and_clear_discard_popup_witness:
  "popup popup_layer = Some 9 \<and> layout popup_layer \<noteq> Some BorderBoxLayout \<and>
   popup (snd (remove 2 popup_layer)) = None \<and> fst (remove 2 popup_layer) = Inr This \<and>
   popup (snd (clear popup_layer)) = None"
proof -
  have l: "layout popup_layer \<noteq> Some BorderBoxLayout" "popup popup_layer = Some 9"
    by (simp_all add: popup_defs)
  show ?thesis
    using l remove_and_clear_discard_popup [of 2 popup_layer None] by simp
qed

text \<open>Claim C3 as stated fails for \<^verbatim>\<open>add\<close>: the popup 9 is still set after a child is added.\<close>

theorem add_keeps_popup:
  "popup popup_layer = Some 9 \<and> fst (add 4 None popup_layer) = Inr (Ref 4) \<and>
   popup (snd (add 4 None popup_layer)) = Some 9"
  by (simp add: add_def Let_def set_layer_def run_init_def popup_defs)

subsection \<open>Layout placement\<close>

lemmas add_defs = add_def Let_def set_layer_def apply_fill_def place_def uses_layout_def omit_def
  isEmpty_def call_layout_def HBox_def VBox_def BorderBox_def lodash_last_def run_init_def
  set_xy_def set_wh_def or_else_def

lemmas remove_defs = remove_def reloadLayout_def lodash_remove_def lodash_matches_def
  has_prop_def call_layout_def HBox_def VBox_def BorderBox_def set_xy_def Let_def

lemmas box_defs = hbox_layer_def boxes_def new_Layer_def new_Child_def new_Rect_def

text \<open>
  Claim C7 does not hold of the code.  With the horizontal strip and spacing 5, two added
  10 by 10 children stand at (5, 5) and (20, 5).  After \<^verbatim>\<open>remove(1)\<close> the remaining child 2
  is put at (0, 0) by \<^verbatim>\<open>_reloadLayout\<close>, and the child 3 added next lands at (15, 0); a fresh
  Layer given the same children 2 and 3 has them at (5, 5) and (20, 5).
\<close>

theorem reload_places_first_child_at_origin:
  "positions (snd (add 2 None (snd (add 1 None hbox_layer)))) = [(1, 5, 5), (2, 20, 5)] \<and>
   positions readded = [(2, 0, 0), (3, 15, 0)] \<and> positions fresh = [(2, 5, 5), (3, 20, 5)]"
  by (simp add: positions_def readded_def fresh_def add_defs remove_defs box_defs)

text \<open>
  Claim C9, as the code has it.  For every child and every alignment pair (inside the unit
  interval or not), the bounded-alignment strategy returns per axis
  \<open>clamp (parentSize * align - childSize / 2) 0 (parentSize - childSize)\<close>.  On each axis
  the position returned lies between 0 and \<open>parentSize - childSize\<close> exactly when the child
  is no larger than the parent on that axis; when it is larger, no position could keep it
  within the parent.
\<close>

theorem BorderBox_clamps_inside_parent:
  assumes "align bag = Some (ax, ay)"
  shows "BorderBox this child prev (Some bag) =
           Inr (clamp (rw (lrect this) * ax - rw (rect child) / 2) 0 (rw (lrect this) - rw (rect child)),
                clamp (rh (lrect this) * ay - rh (rect child) / 2) 0 (rh (lrect this) - rh (rect child))) \<and>
         (in_bounds
            (clamp (rw (lrect this) * ax - rw (rect child) / 2) 0 (rw (lrect this) - rw (rect child)))
            (rw (rect child)) (rw (lrect this))
          \<longleftrightarrow> rw (rect child) \<le> rw (lrect this)) \<and>
         (in_bounds
            (clamp (rh (lrect this) * ay - rh (rect child) / 2) 0 (rh (lrect this) - rh (rect child)))
            (rh (rect child)) (rh (lrect this))
          \<longleftrightarrow> rh (rect child) \<le> rh (lrect this))"
proof (intro conjI)
  show "BorderBox this child prev (Some bag) =
      Inr (clamp (rw (lrect this) * ax - rw (rect child) / 2) 0 (rw (lrect this) - rw (rect child)),
           clamp (rh (lrect this) * ay - rh (rect child) / 2) 0 (rh (lrect this) - rh (rect child)))"
    using assms by (simp add: BorderBox_def clamp_def)
  have limit: "in_bounds (clamp v 0 (parentSize - childSize)) childSize parentSize
      \<longleftrightarrow> childSize \<le> parentSize" for v childSize parentSize :: real
    by (auto simp: in_bounds_def clamp_def max_def min_def)
  show "in_bounds
      (clamp (rw (lrect this) * ax - rw (rect child) / 2) 0 (rw (lrect this) - rw (rect child)))
      (rw (rect child)) (rw (lrect this))
    \<longleftrightarrow> rw (rect child) \<le> rw (lrect this)"
    by (rule limit)
  show "in_bounds
      (clamp (rh (lrect this) * ay - rh (rect child) / 2) 0 (rh (lrect this) - rh (rect child)))
      (rh (rect child)) (rh (lrect this))
    \<longleftrightarrow> rh (rect child) \<le> rh (lrect this)"
    by (rule limit)
qed

theorem BorderBox_clamps_inside_parent_witness:
  "align (aligned 1 1) = Some (1, 1) \<and>
   BorderBox (border_parent 100) big_child None (Some (aligned 1 1)) = Inr (80, 80) \<and>
   in_bounds 80 20 100 \<and>
   align (aligned 2 (- 1)) = Some (2, - 1) \<and>
   BorderBox (border_parent 100) big_child None (Some (aligned 2 (- 1))) = Inr (80, 0) \<and>
   in_bounds 0 20 100 \<and>
   BorderBox (border_parent 10) big_child None (Some (aligned 1 1)) = Inr (0, 0) \<and>
   \<not> in_bounds 0 20 10"
proof -
  have a: "align (aligned 1 1) = Some (1, 1)" "align (aligned 2 (- 1)) = Some (2, - 1)"
    by (simp_all add: aligned_def)
  have sizes: "rw (rect big_child) = 20" "rh (rect big_child) = 20"
    "rw (lrect (border_parent 100)) = 100" "rh (lrect (border_parent 100)) = 100"
    "rw (lrect (border_parent 10)) = 10" "rh (lrect (border_parent 10)) = 10"
    by (simp_all add: big_child_def border_parent_def new_Layer_def new_Child_def new_Rect_def)
  have clamped: "clamp (100 * 1 - 20 / 2) 0 (100 - 20) = 80" "clamp (100 * 2 - 20 / 2) 0 (100 - 20) = 80"
    "clamp (100 * (- 1) - 20 / 2) 0 (100 - 20) = 0" "clamp (10 * 1 - 20 / 2) 0 (10 - 20) = 0"
    by (simp_all add: clamp_def)
  show ?thesis
    using a clamped
      BorderBox_clamps_inside_parent [OF a(1), of "border_parent 100" big_child None]
      BorderBox_clamps_inside_parent [OF a(2), of "border_parent 100" big_child None]
      BorderBox_clamps_inside_parent [OF a(1), of "border_parent 10" big_child None]
    by (simp add: sizes)
qed

text \<open>
  Over exact numbers, being within the limit on both axes is the child lying fully inside
  the parent's bounds.  (In the code the difference \<open>parentSize - childSize\<close> is a rounded
  double, so there the far edge \<open>p + childSize\<close> can pass \<open>parentSize\<close> by a rounding error.)
\<close>

lemma inside_exact:
  "inside this child p \<longleftrightarrow>
     in_bounds (fst p) (rw (rect child)) (rw (lrect this)) \<and>
     in_bounds (snd p) (rh (rect child)) (rh (lrect this))"
  by (auto simp: inside_def in_bounds_def)

text \<open>
  Claim C9 as stated fails for a child larger than its parent: a 20 by 20 child in a
  10 by 10 parent is put at (0, 0), where it sticks out.
\<close>

theorem BorderBox_child_larger_than_parent:
  "BorderBox (border_parent 10) big_child None (Some (aligned (1/2) (1/2))) = Inr (0, 0) \<and>
   \<not> inside (border_parent 10) big_child (0, 0)"
  by (simp add: BorderBox_def inside_def aligned_def big_child_def border_parent_def
      new_Layer_def new_Child_def new_Rect_def)




subsection \<open>Removal\<close>

lemma border_layer_children:
  "children border_layer = [1, 2] \<and> positions border_layer = [(1, 0, 0), (2, 90, 90)]"
  by (simp add: border_layer_def positions_def add_defs aligned_def strip_def new_Layer_def new_Child_def new_Rect_def)

text \<open>
  Claim C6 does not hold of the code.  In a bounded-alignment Layer with the two children
  1 and 2, \<^verbatim>\<open>remove(7)\<close> of a child that is not in the sequence throws: \<^verbatim>\<open>_reloadLayout\<close>
  calls the strategy without options.
\<close>

theorem remove_throws_under_BorderBox:
  "children border_layer = [1, 2] \<and> 7 \<notin> set (children border_layer) \<and>
   fst (remove 7 border_layer) = Inl TypeError"
  by (simp add: border_layer_def remove_defs add_defs aligned_def strip_def new_Layer_def new_Child_def new_Rect_def)

text \<open>
  What does hold of \<^verbatim>\<open>remove\<close>: with another layout, or none, and a child that no element
  of the sequence matches, it is \<^verbatim>\<open>_reloadLayout\<close> on the unchanged sequence, which returns
  the Layer and clears the popup.
\<close>

lemma remove_absent:
  assumes "layout s \<noteq> Some BorderBoxLayout"
    and "\<forall>e\<in>set (children s). \<not> lodash_matches (heap s child) (heap s e)"
  shows "remove child s = reloadLayout s \<and> fst (remove child s) = Inr This \<and>
         children (snd (remove child s)) = children s \<and> popup (snd (remove child s)) = None"
  using assms
  by (simp add: remove_def lodash_remove_absent reloadLayout_returns reloadLayout_frame)

text \<open>
  Not being in the sequence is not enough for that: \<^verbatim>\<open>_.remove\<close> compares properties, so
  removing child 2, which is not in \<open>twin_layer\<close>, takes out child 1, whose rect is the same.
\<close>

lemma remove_takes_lookalike:
  "children twin_layer = [1] \<and> fst (remove 2 twin_layer) = Inr This \<and>
   children (snd (remove 2 twin_layer)) = []"
  by (simp add: twin_layer_def remove_defs add_defs box_defs)

subsection \<open>No duplicates in the children sequence\<close>




subsection \<open>Further properties of the popup slot\<close>

text \<open>\<^verbatim>\<open>clear\<close> returns the Layer and leaves it with no children and no popup.\<close>

theorem clear_empties: "clear s = (Inr This, s\<lparr>children := [], popup := None\<rparr>)"
  by (simp add: clear_def reloadLayout_def Let_def split: option.splits)

text \<open>
  \<^verbatim>\<open>showPopup\<close> of a popup sets the slot, writes the back-reference and centres the popup
  in the Layer's rect, keeping its size.
\<close>

theorem showPopup_centres:
  "popup (snd (showPopup (Some p) s)) = Some p \<and>
   layer (heap (snd (showPopup (Some p) s)) p) = Some (self s) \<and>
   rect (heap (snd (showPopup (Some p) s)) p) =
     \<lparr>rx = rw (lrect s) / 2 - rw (rect (heap s p)) / 2,
      ry = rh (lrect s) / 2 - rh (rect (heap s p)) / 2,
      rw = rw (rect (heap s p)), rh = rh (rect (heap s p))\<rparr>"
  by (simp add: showPopup_def Let_def set_layer_def set_xy_def)

end
